theory Spec2Isabelle
  imports Main "HOL-Library.Char_ord" "HOL-Library.List_Lexorder"
begin

section \<open>Data model of \<^verbatim>\<open>src/components/BookmarkList.tsx\<close>\<close>

text \<open>
  The type \<^verbatim>\<open>Bookmark\<close> of lines 7-13. The field \<^verbatim>\<open>id\<close> is called \<open>bid\<close> here, since
  \<open>id\<close> is the identity function of HOL. A \<open>char\<close> stands for a code unit below 256 of a
  JavaScript string. \<^verbatim>\<open>created_at\<close> is a string in the source; timestamps of one
  ISO-8601 format in UTC compare chronologically as strings, and \<open>\<le>\<close> on \<open>string\<close> is
  the lexicographic order.
\<close>

record bookmark =
  bid :: string
  user_id :: string
  url :: string
  title :: string
  created_at :: string

text \<open>
  The state of the component (lines 21-25): \<^verbatim>\<open>bookmarks\<close>, \<^verbatim>\<open>url\<close>, \<^verbatim>\<open>title\<close>,
  \<^verbatim>\<open>isAdding\<close>, \<^verbatim>\<open>error\<close>; the state variables \<^verbatim>\<open>url\<close> and \<^verbatim>\<open>title\<close> are
  \<open>url_input\<close> and \<open>title_input\<close>, the values of the two input fields. \<open>subscribed\<close>
  records the realtime channel of the effect (lines 28-77): opened when the effect runs,
  removed by its cleanup.
\<close>

text \<open>
  A handler is the function from the state to the state after the updates it asks for,
  in the order in which it asks for them. \<^verbatim>\<open>handleSubmit\<close> and \<^verbatim>\<open>handleDelete\<close> are
  split in two at their \<^verbatim>\<open>await\<close>, so that events and other handlers can run between
  the request and its answer.
\<close>

record component =
  bookmarks :: "bookmark list"
  url_input :: string
  title_input :: string
  isAdding :: bool
  error :: string
  subscribed :: bool

text \<open>
  What the store answers. The error object of a request (lines 120-125 read its
  \<^verbatim>\<open>message\<close>, \<^verbatim>\<open>details\<close>, \<^verbatim>\<open>hint\<close> and \<^verbatim>\<open>code\<close>), and the pair
  \<^verbatim>\<open>{ data, error: insertError }\<close> of line 113, where \<^verbatim>\<open>null\<close> is \<open>None\<close>.
\<close>

record postgrest_error =
  message :: string
  details :: string
  hint :: string
  code :: string

record insert_response =
  data :: "bookmark list option"
  insertError :: "postgrest_error option"

text \<open>
  The payload of a realtime event (line 42). The subscription asks for every event
  (\<^verbatim>\<open>event: '*'\<close>), so an \<^verbatim>\<open>UPDATE\<close> can arrive too; \<open>INSERT\<close> carries
  \<^verbatim>\<open>payload.new\<close>, \<open>DELETE\<close> carries \<^verbatim>\<open>payload.old.id\<close>.
\<close>

datatype payload = INSERT bookmark | UPDATE bookmark | DELETE string

section \<open>The three updaters of the list\<close>

text \<open>
  Line 57, 109 and 159: \<^verbatim>\<open>(current) => [record, ...current]\<close>.
\<close>

definition insertAtFront :: "bookmark \<Rightarrow> bookmark list \<Rightarrow> bookmark list" where
  "insertAtFront record current = record # current"

text \<open>
  Lines 62, 128 and 148: \<^verbatim>\<open>current.filter(b => b.id !== x)\<close>.
\<close>

definition removeById :: "string \<Rightarrow> bookmark list \<Rightarrow> bookmark list" where
  "removeById x current = filter (\<lambda>b. bid b \<noteq> x) current"

text \<open>
  Line 137: \<^verbatim>\<open>current.map(b => b.id === tempId ? data[0] : b)\<close>.
\<close>

definition replaceById :: "string \<Rightarrow> bookmark \<Rightarrow> bookmark list \<Rightarrow> bookmark list" where
  "replaceById tempId row current = map (\<lambda>b. if bid b = tempId then row else b) current"

section \<open>The change listener (lines 42-67)\<close>

text \<open>
  The updater of lines 50-58: \<^verbatim>\<open>current.some(b => b.id === payload.new.id)\<close> decides
  between returning \<^verbatim>\<open>current\<close> and putting the new record in front.
\<close>

definition on_insert :: "bookmark \<Rightarrow> bookmark list \<Rightarrow> bookmark list" where
  "on_insert new current =
     (if list_ex (\<lambda>b. bid b = bid new) current then current
      else insertAtFront new current)"

text \<open>
  The callback of the subscription: an \<^verbatim>\<open>INSERT\<close> runs the updater above, a
  \<^verbatim>\<open>DELETE\<close> filters the id out, any other event type changes nothing.
\<close>

fun on_payload :: "payload \<Rightarrow> component \<Rightarrow> component" where
  "on_payload (INSERT new) s = s\<lparr>bookmarks := on_insert new (bookmarks s)\<rparr>"
| "on_payload (DELETE x) s = s\<lparr>bookmarks := removeById x (bookmarks s)\<rparr>"
| "on_payload (UPDATE new) s = s"

text \<open>
  The effect and its cleanup (lines 28-77): the channel is subscribed, and removed when
  the component is unmounted or \<^verbatim>\<open>userId\<close> changes. Neither touches the list.
\<close>

definition subscribe :: "component \<Rightarrow> component" where
  "subscribe s = s\<lparr>subscribed := True\<rparr>"

definition cleanup :: "component \<Rightarrow> component" where
  "cleanup s = s\<lparr>subscribed := False\<rparr>"

section \<open>Creating a bookmark: \<^verbatim>\<open>handleSubmit\<close> (lines 79-143)\<close>

text \<open>
  \<^verbatim>\<open>String.prototype.trim\<close> removes white space and line terminators from both ends;
  below 256 these are the code units 9 to 13, 32 and 160.
\<close>

definition isWhiteSpace :: "char \<Rightarrow> bool" where
  "isWhiteSpace c = (of_char c \<in> {9, 10, 11, 12, 13, 32, 160 :: nat})"

definition trim :: "string \<Rightarrow> string" where
  "trim s = rev (dropWhile isWhiteSpace (rev (dropWhile isWhiteSpace s)))"

text \<open>
  The handler up to its \<^verbatim>\<open>await\<close> (lines 79-117). Its inputs besides the state:
  \<^item> \<open>url_parses\<close>: whether \<^verbatim>\<open>new URL(url)\<close> returns (\<open>True\<close>) or throws (\<open>False\<close>);
  \<^item> \<open>tempId\<close>: the value of \<^verbatim>\<open>crypto.randomUUID()\<close>;
  \<^item> \<open>now\<close>: the value of \<^verbatim>\<open>new Date().toISOString()\<close>;
  \<^item> \<open>userId\<close>: the prop;
  \<^item> \<open>rendered\<close>: the state of the render that created the handler, from which the
    closure reads \<^verbatim>\<open>url\<close> and \<^verbatim>\<open>title\<close>.
  The result is the new state and, when the insert request of lines 113-117 is sent,
  the optimistic bookmark: the request carries its \<open>url\<close>, \<open>title\<close> and \<open>user_id\<close>, and
  the code after the \<^verbatim>\<open>await\<close> holds it. \<open>None\<close> means that the handler returned
  before line 113 and no request was sent.
\<close>

definition handleSubmit_begin ::
  "bool \<Rightarrow> string \<Rightarrow> string \<Rightarrow> string \<Rightarrow> component \<Rightarrow> component
     \<Rightarrow> component \<times> bookmark option" where
  "handleSubmit_begin url_parses tempId now userId rendered s =
     (let s1 = s\<lparr>error := [], isAdding := True\<rparr> in
      if \<not> url_parses then
        (s1\<lparr>error := ''Please enter a valid URL'', isAdding := False\<rparr>, None)
      else if trim (title_input rendered) = [] then
        (s1\<lparr>error := ''Please enter a title'', isAdding := False\<rparr>, None)
      else
        let optimisticBookmark =
              \<lparr>bid = tempId, user_id = userId, url = trim (url_input rendered),
               title = trim (title_input rendered), created_at = now\<rparr>
        in (s1\<lparr>bookmarks := insertAtFront optimisticBookmark (bookmarks s1),
                url_input := [], title_input := []\<rparr>,
            Some optimisticBookmark))"

text \<open>
  The handler after its \<^verbatim>\<open>await\<close> (lines 119-142), given the optimistic bookmark it
  holds and the answer of the store. An error object is truthy; \<^verbatim>\<open>data && data[0]\<close>
  is truthy when \<^verbatim>\<open>data\<close> is an array with a first row. The message shown is
  \<^verbatim>\<open>insertError.message || 'Unknown error'\<close>, and the empty string is falsy.
\<close>

definition handleSubmit_resolve ::
  "bookmark \<Rightarrow> insert_response \<Rightarrow> component \<Rightarrow> component" where
  "handleSubmit_resolve optimisticBookmark response s =
     (case insertError response of
        Some e \<Rightarrow>
          s\<lparr>bookmarks := removeById (bid optimisticBookmark) (bookmarks s),
            error := ''Failed to add bookmark: ''
                       @ (if message e = [] then ''Unknown error'' else message e),
            url_input := url optimisticBookmark,
            title_input := title optimisticBookmark,
            isAdding := False\<rparr>
      | None \<Rightarrow>
          (case data response of
             Some (row # rest) \<Rightarrow>
               s\<lparr>bookmarks := replaceById (bid optimisticBookmark) row (bookmarks s),
                 isAdding := False\<rparr>
           | _ \<Rightarrow> s\<lparr>isAdding := False\<rparr>))"

section \<open>Deleting a bookmark: \<^verbatim>\<open>handleDelete\<close> (lines 145-164)\<close>

text \<open>
  Up to the \<^verbatim>\<open>await\<close> (lines 147-153): \<^verbatim>\<open>bookmarks.find\<close> reads the list of the
  render that created the handler (\<open>rendered\<close>), the updater filters the current list.
  The result is the new state and \<^verbatim>\<open>bookmarkToDelete\<close> (\<^verbatim>\<open>undefined\<close> is \<open>None\<close>).
\<close>

definition handleDelete_begin ::
  "string \<Rightarrow> component \<Rightarrow> component \<Rightarrow> component \<times> bookmark option" where
  "handleDelete_begin x rendered s =
     (s\<lparr>bookmarks := removeById x (bookmarks s)\<rparr>,
      find (\<lambda>b. bid b = x) (bookmarks rendered))"


section \<open>Properties that are checked, and concrete inputs\<close>

text \<open>The number of records of a list that are keyed by \<open>x\<close>.\<close>

definition count_id :: "string \<Rightarrow> bookmark list \<Rightarrow> nat" where
  "count_id x current = length (filter (\<lambda>b. bid b = x) current)"

text \<open>The number of records of a list that carry the url \<open>u\<close> and the title \<open>t\<close>.\<close>

definition count_url_title :: "string \<Rightarrow> string \<Rightarrow> bookmark list \<Rightarrow> nat" where
  "count_url_title u t current = length (filter (\<lambda>b. url b = u \<and> title b = t) current)"

text \<open>An event that inserts a record keyed by \<open>t\<close>.\<close>

definition inserts_under :: "string \<Rightarrow> payload \<Rightarrow> bool" where
  "inserts_under t ev = (case ev of INSERT r \<Rightarrow> bid r = t | _ \<Rightarrow> False)"

text \<open>A list ordered by \<^verbatim>\<open>created_at\<close> descending, most recent first.\<close>

definition sorted_desc :: "bookmark list \<Rightarrow> bool" where
  "sorted_desc current = sorted_wrt (\<lambda>a b. created_at b \<le> created_at a) current"

text \<open>
  Concrete records of the user \<^verbatim>\<open>u1\<close>, and a component with a given list and given
  contents of the two input fields, subscribed and showing no error.
\<close>

definition mk :: "string \<Rightarrow> string \<Rightarrow> string \<Rightarrow> string \<Rightarrow> bookmark" where
  "mk i u t c = \<lparr>bid = i, user_id = ''u1'', url = u, title = t, created_at = c\<rparr>"

definition row_a :: bookmark where
  "row_a = mk ''id-1'' ''https://a.example'' ''A'' ''2024-01-01T00:00:00.000Z''"

definition row_b :: bookmark where
  "row_b = mk ''id-2'' ''https://b.example'' ''B'' ''2024-01-02T00:00:00.000Z''"

definition row_c :: bookmark where
  "row_c = mk ''id-3'' ''https://c.example'' ''C'' ''2024-01-03T00:00:00.000Z''"

definition form :: "bookmark list \<Rightarrow> string \<Rightarrow> string \<Rightarrow> component" where
  "form bs u t =
     \<lparr>bookmarks = bs, url_input = u, title_input = t, isAdding = False, error = [],
      subscribed = True\<rparr>"

definition rejected :: "string \<Rightarrow> postgrest_error" where
  "rejected m = \<lparr>message = m, details = [], hint = [], code = ''42501''\<rparr>"

section \<open>Facts about the updaters\<close>

lemma removeById_absent: "x \<notin> bid ` set current \<Longrightarrow> removeById x current = current"
  unfolding removeById_def by (induction current) auto

lemma removeById_twice: "removeById x (removeById x current) = removeById x current"
  unfolding removeById_def by simp

lemma removeById_gone: "x \<notin> bid ` set (removeById x current)"
  unfolding removeById_def by auto

lemma removeById_commute:
  "removeById x (removeById y current) = removeById y (removeById x current)"
  unfolding removeById_def by (induction current) auto

lemma replaceById_absent:
  "t \<notin> bid ` set current \<Longrightarrow> replaceById t row current = current"
  unfolding replaceById_def by (induction current) auto

lemma count_id_absent: "x \<notin> bid ` set current \<Longrightarrow> count_id x current = 0"
  unfolding count_id_def by (induction current) auto

lemma on_insert_removeById:
  assumes "bid r \<noteq> t"
  shows "removeById t (on_insert r current) = on_insert r (removeById t current)"
proof -
  have "list_ex (\<lambda>b. bid b = bid r) (removeById t current)
          = list_ex (\<lambda>b. bid b = bid r) current"
    using assms by (auto simp: list_ex_iff removeById_def)
  then show ?thesis
    using assms by (simp add: on_insert_def insertAtFront_def removeById_def)
qed

text \<open>
  Events that insert no record keyed by \<open>t\<close> cannot tell a list from the same list
  without its records keyed by \<open>t\<close>.
\<close>

lemma on_payload_removeById:
  assumes "\<not> inserts_under t ev"
    and "removeById t (bookmarks a) = bookmarks b"
  shows "removeById t (bookmarks (on_payload ev a)) = bookmarks (on_payload ev b)"
proof (cases ev)
  case (INSERT r)
  with assms(1) have "bid r \<noteq> t" by (simp add: inserts_under_def)
  then show ?thesis
    using INSERT assms(2) by (simp add: on_insert_removeById)
next
  case (UPDATE r)
  then show ?thesis using assms(2) by simp
next
  case (DELETE x)
  then show ?thesis
    using assms(2) removeById_commute [of t x "bookmarks a"] by simp
qed

lemma fold_on_payload_removeById:
  assumes "\<not> list_ex (inserts_under t) events"
    and "removeById t (bookmarks a) = bookmarks b"
  shows "removeById t (bookmarks (fold on_payload events a))
           = bookmarks (fold on_payload events b)"
  using assms
proof (induction events arbitrary: a b)
  case Nil
  then show ?case by simp
next
  case (Cons ev events)
  have step: "removeById t (bookmarks (on_payload ev a)) = bookmarks (on_payload ev b)"
    using Cons.prems by (intro on_payload_removeById) auto
  have rest: "\<not> list_ex (inserts_under t) events"
    using Cons.prems(1) by simp
  show ?case
    using Cons.IH [OF rest step] by simp
qed

lemma fold_on_insert_fresh:
  assumes "distinct (map bid rs)" and "bid ` set rs \<inter> bid ` set current = {}"
  shows "fold on_insert rs current = rev rs @ current"
  using assms
proof (induction rs arbitrary: current)
  case Nil
  then show ?case by simp
next
  case (Cons r rs)
  have "bid r \<notin> bid ` set current"
    using Cons.prems(2) by auto
  then have first: "on_insert r current = r # current"
    by (auto simp: on_insert_def insertAtFront_def list_ex_iff image_iff)
  have "bid ` set rs \<inter> bid ` set (r # current) = {}"
    using Cons.prems by auto
  with Cons.IH [of "r # current"] Cons.prems(1) first show ?case by simp
qed

lemma fold_insertAtFront: "fold insertAtFront rs current = rev rs @ current"
  by (induction rs arbitrary: current) (simp_all add: insertAtFront_def)

lemma sorted_desc_rev: "sorted_desc (rev rs) = sorted (map created_at rs)"
  by (simp add: sorted_desc_def sorted_wrt_rev sorted_map)

lemma replaceById_placeholder:
  assumes "bid ob = t" and "t \<notin> bid ` set (pre @ post)"
  shows "replaceById t row (pre @ ob # post) = pre @ row # post"
proof -
  have "t \<notin> bid ` set pre" and "t \<notin> bid ` set post"
    using assms(2) by auto
  then show ?thesis
    using assms(1) replaceById_absent [of t pre row] replaceById_absent [of t post row]
    by (simp add: replaceById_def)
qed

section \<open>The change listener\<close>

text \<open>
  Claim C7. Folding a Created event (an \<^verbatim>\<open>INSERT\<close> payload) whose record id is
  already in the list leaves the whole state as it is; when the id is not in the list,
  the record is put in front of the list and nothing else changes.
\<close>

theorem created_event_fold:
  "(bid new \<in> bid ` set (bookmarks s) \<longrightarrow> on_payload (INSERT new) s = s) \<and>
   (bid new \<notin> bid ` set (bookmarks s) \<longrightarrow>
      on_payload (INSERT new) s = s\<lparr>bookmarks := new # bookmarks s\<rparr>)"
  by (auto simp: on_insert_def insertAtFront_def list_ex_iff image_iff)

theorem created_event_fold_witness:
  "bid (mk ''id-1'' ''https://x.example'' ''echo'' ''2024-01-05T00:00:00.000Z'')
     \<in> bid ` set (bookmarks (form [row_a] [] [])) \<and>
   on_payload (INSERT (mk ''id-1'' ''https://x.example'' ''echo'' ''2024-01-05T00:00:00.000Z''))
     (form [row_a] [] []) = form [row_a] [] [] \<and>
   bid row_b \<notin> bid ` set (bookmarks (form [row_a] [] [])) \<and>
   on_payload (INSERT row_b) (form [row_a] [] []) = form [row_b, row_a] [] []"
proof -
  let ?s = "form [row_a] [] []"
  let ?echo = "mk ''id-1'' ''https://x.example'' ''echo'' ''2024-01-05T00:00:00.000Z''"
  have present: "bid ?echo \<in> bid ` set (bookmarks ?s)"
    by (simp add: mk_def row_a_def row_b_def form_def)
  have absent: "bid row_b \<notin> bid ` set (bookmarks ?s)"
    by (simp add: mk_def row_a_def row_b_def form_def)
  from created_event_fold [of ?echo ?s] present
  have "on_payload (INSERT ?echo) ?s = ?s" by blast
  moreover from created_event_fold [of row_b ?s] absent
  have "on_payload (INSERT row_b) ?s = ?s\<lparr>bookmarks := row_b # bookmarks ?s\<rparr>" by blast
  ultimately show ?thesis
    using present absent by (simp add: form_def)
qed

text \<open>
  Claim C5. Removing an id is idempotent and total: \<open>removeById\<close> is a function with no
  error outcome; applying it twice gives what applying it once gives; when the id is
  absent the list is unchanged; after it the id is absent. When the optimistic delete
  of \<^verbatim>\<open>handleDelete\<close> has removed the id and a \<^verbatim>\<open>DELETE\<close> event for the same id
  follows, the event changes nothing and the id stays absent.
\<close>

theorem removeById_idempotent:
  "removeById x (removeById x current) = removeById x current \<and>
   (x \<notin> bid ` set current \<longrightarrow> removeById x current = current) \<and>
   x \<notin> bid ` set (removeById x current) \<and>
   on_payload (DELETE x) (fst (handleDelete_begin x rendered s))
     = fst (handleDelete_begin x rendered s) \<and>
   x \<notin> bid ` set (bookmarks (on_payload (DELETE x) (fst (handleDelete_begin x rendered s))))"
  by (simp add: removeById_twice removeById_absent removeById_gone handleDelete_begin_def)

theorem removeById_idempotent_witness:
  "''id-3'' \<notin> bid ` set [row_b, row_a] \<and>
   removeById ''id-3'' [row_b, row_a] = [row_b, row_a] \<and>
   removeById ''id-2'' (removeById ''id-2'' [row_b, row_a]) = [row_a] \<and>
   on_payload (DELETE ''id-2'')
     (fst (handleDelete_begin ''id-2'' (form [row_b, row_a] [] []) (form [row_b, row_a] [] [])))
     = form [row_a] [] []"
proof -
  have absent: "''id-3'' \<notin> bid ` set [row_b, row_a]"
    by (simp add: mk_def row_a_def row_b_def form_def)
  from removeById_idempotent [of "''id-3''" "[row_b, row_a]"] absent
  have "removeById ''id-3'' [row_b, row_a] = [row_b, row_a]" by blast
  moreover have "removeById ''id-2'' (removeById ''id-2'' [row_b, row_a]) = [row_a]"
    using removeById_idempotent [of "''id-2''" "[row_b, row_a]"]
    by (simp add: removeById_def mk_def row_a_def row_b_def form_def)
  moreover have "on_payload (DELETE ''id-2'')
      (fst (handleDelete_begin ''id-2'' (form [row_b, row_a] [] []) (form [row_b, row_a] [] [])))
      = form [row_a] [] []"
    using removeById_idempotent [of "''id-2''" "[]" "form [row_b, row_a] [] []" "form [row_b, row_a] [] []"]
    by (simp add: handleDelete_begin_def removeById_def mk_def row_a_def row_b_def form_def)
  ultimately show ?thesis using absent by simp
qed

section \<open>Deleting\<close>




section \<open>Creating\<close>

text \<open>
  Claim C4. When \<^verbatim>\<open>new URL(url)\<close> throws, or the title is empty after trimming,
  \<^verbatim>\<open>handleSubmit\<close> sends no request, changes nothing but the error text and \<^verbatim>\<open>isAdding\<close> (the list and
  the two input fields are as they were), and shows a message: \<^verbatim>\<open>Please enter a valid URL\<close> in the first case,
  \<^verbatim>\<open>Please enter a title\<close> otherwise.
\<close>

theorem validation_failure:
  assumes "\<not> url_parses \<or> trim (title_input rendered) = []"
  shows "handleSubmit_begin url_parses tempId now userId rendered s
           = (s\<lparr>error := (if url_parses then ''Please enter a title''
                           else ''Please enter a valid URL''),
               isAdding := False\<rparr>, None) \<and>
         bookmarks (fst (handleSubmit_begin url_parses tempId now userId rendered s))
           = bookmarks s \<and>
         error (fst (handleSubmit_begin url_parses tempId now userId rendered s)) \<noteq> []"
  using assms by (auto simp: handleSubmit_begin_def Let_def)

theorem validation_failure_witness:
  "trim (title_input (form [row_a] ''https://b.example'' ''   '')) = [] \<and>
   handleSubmit_begin True ''temp-1'' ''2024-01-02T00:00:00.000Z'' ''u1''
       (form [row_a] ''https://b.example'' ''   '') (form [row_a] ''https://b.example'' ''   '')
     = ((form [row_a] ''https://b.example'' ''   '')
          \<lparr>error := ''Please enter a title'', isAdding := False\<rparr>, None) \<and>
   handleSubmit_begin False ''temp-1'' ''2024-01-02T00:00:00.000Z'' ''u1''
       (form [row_a] ''not a url'' ''B'') (form [row_a] ''not a url'' ''B'')
     = ((form [row_a] ''not a url'' ''B'')
          \<lparr>error := ''Please enter a valid URL'', isAdding := False\<rparr>, None)"
proof -
  let ?blank = "form [row_a] ''https://b.example'' ''   ''"
  let ?bad = "form [row_a] ''not a url'' ''B''"
  have blank: "trim (title_input ?blank) = []"
    by (simp add: form_def trim_def isWhiteSpace_def)
  then have h1: "\<not> True \<or> trim (title_input ?blank) = []" by simp
  have h2: "\<not> False \<or> trim (title_input ?bad) = []" by simp
  from validation_failure [OF h1, of "''temp-1''" "''2024-01-02T00:00:00.000Z''" "''u1''" ?blank]
  have r1: "handleSubmit_begin True ''temp-1'' ''2024-01-02T00:00:00.000Z'' ''u1'' ?blank ?blank
      = (?blank\<lparr>error := ''Please enter a title'', isAdding := False\<rparr>, None)"
    by simp
  from validation_failure [OF h2, of "''temp-1''" "''2024-01-02T00:00:00.000Z''" "''u1''" ?bad]
  have r2: "handleSubmit_begin False ''temp-1'' ''2024-01-02T00:00:00.000Z'' ''u1'' ?bad ?bad
      = (?bad\<lparr>error := ''Please enter a valid URL'', isAdding := False\<rparr>, None)"
    by simp
  from blank r1 r2 show ?thesis by blast
qed

text \<open>
  Claim C9. When the insert succeeds (no error object) and \<^verbatim>\<open>data\<close> is \<^verbatim>\<open>null\<close> or an
  empty array, the code after the \<^verbatim>\<open>await\<close> only resets \<^verbatim>\<open>isAdding\<close>: the list and
  the error text are what they were. Run right after the first half of the handler,
  the placeholder is still the first record of the list, under its temporary id, and
  the error text is empty.
\<close>

theorem create_success_without_row:
  assumes "handleSubmit_begin url_parses tempId now userId rendered s = (s1, Some ob)"
    and "insertError response = None"
    and "data response = None \<or> data response = Some []"
  shows "handleSubmit_resolve ob response s' = s'\<lparr>isAdding := False\<rparr> \<and>
         bookmarks (handleSubmit_resolve ob response s1) = ob # bookmarks s \<and>
         bid ob = tempId \<and>
         error (handleSubmit_resolve ob response s1) = []"
proof -
  have resolve: "handleSubmit_resolve ob response t = t\<lparr>isAdding := False\<rparr>" for t
    using assms(2,3) by (auto simp: handleSubmit_resolve_def)
  have "bookmarks s1 = ob # bookmarks s \<and> bid ob = tempId \<and> error s1 = []"
    using assms(1)
    by (auto simp: handleSubmit_begin_def Let_def insertAtFront_def split: if_splits)
  then show ?thesis by (simp add: resolve)
qed

theorem create_success_without_row_witness:
  "handleSubmit_begin True ''temp-1'' ''2024-01-02T00:00:00.000Z'' ''u1''
       (form [row_a] ''https://b.example'' ''B'') (form [row_a] ''https://b.example'' ''B'')
     = ((form [mk ''temp-1'' ''https://b.example'' ''B'' ''2024-01-02T00:00:00.000Z'', row_a] [] [])
          \<lparr>isAdding := True\<rparr>,
        Some (mk ''temp-1'' ''https://b.example'' ''B'' ''2024-01-02T00:00:00.000Z'')) \<and>
   handleSubmit_resolve (mk ''temp-1'' ''https://b.example'' ''B'' ''2024-01-02T00:00:00.000Z'')
       \<lparr>data = Some [], insertError = None\<rparr>
       ((form [mk ''temp-1'' ''https://b.example'' ''B'' ''2024-01-02T00:00:00.000Z'', row_a] [] [])
          \<lparr>isAdding := True\<rparr>)
     = form [mk ''temp-1'' ''https://b.example'' ''B'' ''2024-01-02T00:00:00.000Z'', row_a] [] []"
proof -
  let ?s = "form [row_a] ''https://b.example'' ''B''"
  let ?ob = "mk ''temp-1'' ''https://b.example'' ''B'' ''2024-01-02T00:00:00.000Z''"
  let ?s1 = "(form [?ob, row_a] [] [])\<lparr>isAdding := True\<rparr>"
  let ?r = "\<lparr>data = Some [], insertError = None\<rparr> :: insert_response"
  have b: "handleSubmit_begin True ''temp-1'' ''2024-01-02T00:00:00.000Z'' ''u1'' ?s ?s
             = (?s1, Some ?ob)"
    by (simp add: handleSubmit_begin_def Let_def insertAtFront_def trim_def isWhiteSpace_def
        form_def mk_def)
  have e: "insertError ?r = None" by simp
  have d: "data ?r = None \<or> data ?r = Some []" by simp
  show ?thesis
    using b create_success_without_row [OF b e d, of ?s1] by (simp add: form_def)
qed

text \<open>
  Claim C3, as stated, fails: after a failed create the title field holds the trimmed
  title, not the text that was entered. Here the user entered the title \<open>'' B''\<close>, with
  a leading space, and the field is given \<open>''B''\<close> back.
\<close>

theorem create_failure_fields_counterexample:
  "handleSubmit_begin True ''temp-1'' ''2024-01-02T00:00:00.000Z'' ''u1''
       (form [row_a] ''https://b.example'' '' B'') (form [row_a] ''https://b.example'' '' B'')
     = ((form [mk ''temp-1'' ''https://b.example'' ''B'' ''2024-01-02T00:00:00.000Z'', row_a] [] [])
          \<lparr>isAdding := True\<rparr>,
        Some (mk ''temp-1'' ''https://b.example'' ''B'' ''2024-01-02T00:00:00.000Z'')) \<and>
   title_input
     (handleSubmit_resolve (mk ''temp-1'' ''https://b.example'' ''B'' ''2024-01-02T00:00:00.000Z'')
        \<lparr>data = None, insertError = Some (rejected ''permission denied'')\<rparr>
        ((form [mk ''temp-1'' ''https://b.example'' ''B'' ''2024-01-02T00:00:00.000Z'', row_a] [] [])
           \<lparr>isAdding := True\<rparr>))
     = ''B'' \<and>
   title_input (form [row_a] ''https://b.example'' '' B'') = '' B''"
  by (simp add: handleSubmit_begin_def handleSubmit_resolve_def Let_def insertAtFront_def
      trim_def isWhiteSpace_def form_def mk_def)

text \<open>
  Claim C3, amended. Let a create pass validation with a temporary id that no record of
  the list has, let any realtime events that insert no record under that id arrive
  while the request is pending, and let the request fail. Once the failure is
  processed, the list is what the same events make of the list from before the
  optimistic insert (with no events: that list itself); the url and title fields hold
  the trimmed url and title that were entered; and the error text is
  \<^verbatim>\<open>Failed to add bookmark: \<close> followed by the message of the error, or by
  \<^verbatim>\<open>Unknown error\<close> when that message is empty.
\<close>

theorem create_failure_rollback:
  assumes "handleSubmit_begin url_parses tempId now userId rendered s = (s1, Some ob)"
    and "tempId \<notin> bid ` set (bookmarks s)"
    and "\<not> list_ex (inserts_under tempId) events"
    and "insertError response = Some e"
  shows "bookmarks (handleSubmit_resolve ob response (fold on_payload events s1))
           = bookmarks (fold on_payload events s) \<and>
         url_input (handleSubmit_resolve ob response (fold on_payload events s1))
           = trim (url_input rendered) \<and>
         title_input (handleSubmit_resolve ob response (fold on_payload events s1))
           = trim (title_input rendered) \<and>
         error (handleSubmit_resolve ob response (fold on_payload events s1))
           = ''Failed to add bookmark: ''
               @ (if message e = [] then ''Unknown error'' else message e)"
proof -
  have opt: "bookmarks s1 = ob # bookmarks s" "bid ob = tempId"
    "url ob = trim (url_input rendered)" "title ob = trim (title_input rendered)"
    using assms(1)
    by (auto simp: handleSubmit_begin_def Let_def insertAtFront_def split: if_splits)
  have "removeById tempId (bookmarks s1) = bookmarks s"
    using opt(1,2) assms(2) by (simp add: removeById_def removeById_absent [unfolded removeById_def])
  then have "removeById tempId (bookmarks (fold on_payload events s1))
               = bookmarks (fold on_payload events s)"
    using assms(3) by (intro fold_on_payload_removeById)
  then show ?thesis
    using opt assms(4) by (simp add: handleSubmit_resolve_def)
qed

theorem create_failure_rollback_witness:
  "handleSubmit_begin True ''temp-1'' ''2024-01-02T00:00:00.000Z'' ''u1''
       (form [row_a] ''https://b.example'' '' B'') (form [row_a] ''https://b.example'' '' B'')
     = ((form [mk ''temp-1'' ''https://b.example'' ''B'' ''2024-01-02T00:00:00.000Z'', row_a] [] [])
          \<lparr>isAdding := True\<rparr>,
        Some (mk ''temp-1'' ''https://b.example'' ''B'' ''2024-01-02T00:00:00.000Z'')) \<and>
   ''temp-1'' \<notin> bid ` set (bookmarks (form [row_a] ''https://b.example'' '' B'')) \<and>
   \<not> list_ex (inserts_under ''temp-1'') [INSERT row_c, DELETE ''id-1''] \<and>
   bookmarks
     (handleSubmit_resolve (mk ''temp-1'' ''https://b.example'' ''B'' ''2024-01-02T00:00:00.000Z'')
        \<lparr>data = None, insertError = Some (rejected [])\<rparr>
        (fold on_payload [INSERT row_c, DELETE ''id-1'']
           ((form [mk ''temp-1'' ''https://b.example'' ''B'' ''2024-01-02T00:00:00.000Z'', row_a] [] [])
              \<lparr>isAdding := True\<rparr>)))
     = [row_c] \<and>
   error
     (handleSubmit_resolve (mk ''temp-1'' ''https://b.example'' ''B'' ''2024-01-02T00:00:00.000Z'')
        \<lparr>data = None, insertError = Some (rejected [])\<rparr>
        (fold on_payload [INSERT row_c, DELETE ''id-1'']
           ((form [mk ''temp-1'' ''https://b.example'' ''B'' ''2024-01-02T00:00:00.000Z'', row_a] [] [])
              \<lparr>isAdding := True\<rparr>)))
     = ''Failed to add bookmark: Unknown error''"
proof -
  let ?s = "form [row_a] ''https://b.example'' '' B''"
  let ?ob = "mk ''temp-1'' ''https://b.example'' ''B'' ''2024-01-02T00:00:00.000Z''"
  let ?s1 = "(form [?ob, row_a] [] [])\<lparr>isAdding := True\<rparr>"
  let ?r = "\<lparr>data = None, insertError = Some (rejected [])\<rparr> :: insert_response"
  let ?evs = "[INSERT row_c, DELETE ''id-1'']"
  have b: "handleSubmit_begin True ''temp-1'' ''2024-01-02T00:00:00.000Z'' ''u1'' ?s ?s
             = (?s1, Some ?ob)"
    by (simp add: handleSubmit_begin_def Let_def insertAtFront_def trim_def isWhiteSpace_def
        form_def mk_def)
  have f: "''temp-1'' \<notin> bid ` set (bookmarks ?s)"
    by (simp add: mk_def row_a_def row_c_def form_def rejected_def)
  have i: "\<not> list_ex (inserts_under ''temp-1'') ?evs"
    by (simp add: inserts_under_def mk_def row_a_def row_c_def form_def rejected_def)
  have e: "insertError ?r = Some (rejected [])" by simp
  have after: "bookmarks (fold on_payload ?evs ?s) = [row_c]"
    by (simp add: on_insert_def insertAtFront_def removeById_def mk_def row_a_def row_c_def form_def rejected_def)
  have "bookmarks (handleSubmit_resolve ?ob ?r (fold on_payload ?evs ?s1)) = [row_c]"
    and "error (handleSubmit_resolve ?ob ?r (fold on_payload ?evs ?s1))
           = ''Failed to add bookmark: Unknown error''"
    using create_failure_rollback [OF b f i e] after by (simp_all add: rejected_def)
  with b f i show ?thesis by blast
qed

text \<open>
  Claim C2, as stated, fails where the code works as designed. Counted by url and
  title, the list after the optimistic step need not hold exactly one record: when
  the list already has a bookmark with the same url and title there are two, and when
  the title is entered with a leading space the placeholder carries the trimmed title,
  so no record has the title as entered.
\<close>

theorem create_exactly_one_counterexample:
  "handleSubmit_begin True ''temp-1'' ''2024-01-02T00:00:00.000Z'' ''u1''
       (form [row_a] ''https://a.example'' ''A'') (form [row_a] ''https://a.example'' ''A'')
     = ((form [mk ''temp-1'' ''https://a.example'' ''A'' ''2024-01-02T00:00:00.000Z'', row_a] [] [])
          \<lparr>isAdding := True\<rparr>,
        Some (mk ''temp-1'' ''https://a.example'' ''A'' ''2024-01-02T00:00:00.000Z'')) \<and>
   count_url_title ''https://a.example'' ''A''
     [mk ''temp-1'' ''https://a.example'' ''A'' ''2024-01-02T00:00:00.000Z'', row_a] = 2 \<and>
   handleSubmit_begin True ''temp-1'' ''2024-01-02T00:00:00.000Z'' ''u1''
       (form [] ''https://a.example'' '' A'') (form [] ''https://a.example'' '' A'')
     = ((form [mk ''temp-1'' ''https://a.example'' ''A'' ''2024-01-02T00:00:00.000Z''] [] [])
          \<lparr>isAdding := True\<rparr>,
        Some (mk ''temp-1'' ''https://a.example'' ''A'' ''2024-01-02T00:00:00.000Z'')) \<and>
   count_url_title ''https://a.example'' '' A''
     [mk ''temp-1'' ''https://a.example'' ''A'' ''2024-01-02T00:00:00.000Z''] = 0"
  by (simp add: handleSubmit_begin_def Let_def insertAtFront_def trim_def isWhiteSpace_def
      count_url_title_def mk_def row_a_def form_def)

text \<open>
  Claim C2, amended. Let a create pass validation with a temporary id that no record of
  the list has. Right after the optimistic step the list is the placeholder in front
  of the old list: exactly one record is keyed by the temporary id, and it carries the
  trimmed url and title. Let the store answer without error and with a row, and let
  the answer be processed in any later state whose list still holds the placeholder,
  \<open>pre @ ob # post\<close>, with no other record under the temporary id and no record under
  the id of the row (no echo of the create has arrived; other events and handlers may
  have run). Then the row takes the place of the placeholder, \<open>pre @ row # post\<close>:
  exactly one record is keyed by the permanent id, none by the temporary id. An echo
  of the create that arrives after that changes nothing.
\<close>

theorem create_confirm:
  assumes "handleSubmit_begin url_parses tempId now userId rendered s = (s1, Some ob)"
    and "tempId \<notin> bid ` set (bookmarks s)"
    and "bookmarks s2 = pre @ ob # post"
    and "tempId \<notin> bid ` set (pre @ post)"
    and "bid row \<notin> bid ` set (pre @ post)"
    and "bid row \<noteq> tempId"
    and "insertError response = None"
    and "data response = Some (row # rest)"
    and "bid echo = bid row"
  shows "bookmarks s1 = ob # bookmarks s \<and>
         bid ob = tempId \<and>
         url ob = trim (url_input rendered) \<and>
         title ob = trim (title_input rendered) \<and>
         count_id tempId (bookmarks s1) = 1 \<and>
         bookmarks (handleSubmit_resolve ob response s2) = pre @ row # post \<and>
         count_id (bid row) (bookmarks (handleSubmit_resolve ob response s2)) = 1 \<and>
         count_id tempId (bookmarks (handleSubmit_resolve ob response s2)) = 0 \<and>
         on_payload (INSERT echo) (handleSubmit_resolve ob response s2)
           = handleSubmit_resolve ob response s2"
proof -
  have opt: "bookmarks s1 = ob # bookmarks s" "bid ob = tempId"
    "url ob = trim (url_input rendered)" "title ob = trim (title_input rendered)"
    using assms(1)
    by (auto simp: handleSubmit_begin_def Let_def insertAtFront_def split: if_splits)
  have one_temp: "count_id tempId (bookmarks s1) = 1"
    using opt(1,2) count_id_absent [OF assms(2)] by (simp add: count_id_def)
  have "replaceById tempId row (pre @ ob # post) = pre @ row # post"
    using opt(2) assms(4) by (rule replaceById_placeholder)
  then have confirmed: "bookmarks (handleSubmit_resolve ob response s2) = pre @ row # post"
    using assms(3,7,8) opt(2) by (simp add: handleSubmit_resolve_def)
  have parts: "count_id (bid row) pre = 0" "count_id (bid row) post = 0"
    "count_id tempId pre = 0" "count_id tempId post = 0"
    using assms(4,5) by (auto intro!: count_id_absent)
  have one_perm: "count_id (bid row) (pre @ row # post) = 1"
    using parts(1,2) by (simp add: count_id_def)
  have no_temp: "count_id tempId (pre @ row # post) = 0"
    using parts(3,4) assms(6) by (simp add: count_id_def)
  have "list_ex (\<lambda>b. bid b = bid echo) (pre @ row # post)"
    using assms(9) by (simp add: list_ex_iff)
  then have "on_payload (INSERT echo) (handleSubmit_resolve ob response s2)
               = handleSubmit_resolve ob response s2"
    using confirmed by (simp add: on_insert_def)
  with opt one_temp confirmed one_perm no_temp show ?thesis by simp
qed

theorem create_confirm_witness:
  "handleSubmit_begin True ''temp-1'' ''2024-01-02T00:00:00.000Z'' ''u1''
       (form [row_a] ''https://b.example'' '' B'') (form [row_a] ''https://b.example'' '' B'')
     = ((form [mk ''temp-1'' ''https://b.example'' ''B'' ''2024-01-02T00:00:00.000Z'', row_a] [] [])
          \<lparr>isAdding := True\<rparr>,
        Some (mk ''temp-1'' ''https://b.example'' ''B'' ''2024-01-02T00:00:00.000Z'')) \<and>
   ''temp-1'' \<notin> bid ` set (bookmarks (form [row_a] ''https://b.example'' '' B'')) \<and>
   bookmarks
     (on_payload (INSERT row_c)
        ((form [mk ''temp-1'' ''https://b.example'' ''B'' ''2024-01-02T00:00:00.000Z'', row_a] [] [])
           \<lparr>isAdding := True\<rparr>))
     = [row_c] @ mk ''temp-1'' ''https://b.example'' ''B'' ''2024-01-02T00:00:00.000Z'' # [row_a] \<and>
   ''temp-1'' \<notin> bid ` set ([row_c] @ [row_a]) \<and>
   bid row_b \<notin> bid ` set ([row_c] @ [row_a]) \<and>
   bid row_b \<noteq> ''temp-1'' \<and>
   bookmarks
     (handleSubmit_resolve (mk ''temp-1'' ''https://b.example'' ''B'' ''2024-01-02T00:00:00.000Z'')
        \<lparr>data = Some [row_b], insertError = None\<rparr>
        (on_payload (INSERT row_c)
           ((form [mk ''temp-1'' ''https://b.example'' ''B'' ''2024-01-02T00:00:00.000Z'', row_a] [] [])
              \<lparr>isAdding := True\<rparr>)))
     = [row_c, row_b, row_a] \<and>
   on_payload (INSERT row_b)
     (handleSubmit_resolve (mk ''temp-1'' ''https://b.example'' ''B'' ''2024-01-02T00:00:00.000Z'')
        \<lparr>data = Some [row_b], insertError = None\<rparr>
        (on_payload (INSERT row_c)
           ((form [mk ''temp-1'' ''https://b.example'' ''B'' ''2024-01-02T00:00:00.000Z'', row_a] [] [])
              \<lparr>isAdding := True\<rparr>)))
     = handleSubmit_resolve (mk ''temp-1'' ''https://b.example'' ''B'' ''2024-01-02T00:00:00.000Z'')
        \<lparr>data = Some [row_b], insertError = None\<rparr>
        (on_payload (INSERT row_c)
           ((form [mk ''temp-1'' ''https://b.example'' ''B'' ''2024-01-02T00:00:00.000Z'', row_a] [] [])
              \<lparr>isAdding := True\<rparr>))"
proof -
  let ?s = "form [row_a] ''https://b.example'' '' B''"
  let ?ob = "mk ''temp-1'' ''https://b.example'' ''B'' ''2024-01-02T00:00:00.000Z''"
  let ?s1 = "(form [?ob, row_a] [] [])\<lparr>isAdding := True\<rparr>"
  let ?s2 = "on_payload (INSERT row_c) ?s1"
  let ?r = "\<lparr>data = Some [row_b], insertError = None\<rparr> :: insert_response"
  have b: "handleSubmit_begin True ''temp-1'' ''2024-01-02T00:00:00.000Z'' ''u1'' ?s ?s
             = (?s1, Some ?ob)"
    by (simp add: handleSubmit_begin_def Let_def insertAtFront_def trim_def isWhiteSpace_def
        form_def mk_def)
  have f: "''temp-1'' \<notin> bid ` set (bookmarks ?s)"
    by (simp add: mk_def row_a_def form_def)
  have l: "bookmarks ?s2 = [row_c] @ ?ob # [row_a]"
    by (simp add: on_insert_def insertAtFront_def mk_def row_a_def row_c_def form_def)
  have t: "''temp-1'' \<notin> bid ` set ([row_c] @ [row_a])"
    by (simp add: mk_def row_a_def row_c_def)
  have p: "bid row_b \<notin> bid ` set ([row_c] @ [row_a])"
    by (simp add: mk_def row_a_def row_b_def row_c_def)
  have n: "bid row_b \<noteq> ''temp-1''"
    by (simp add: mk_def row_b_def)
  have e: "insertError ?r = None" by simp
  have d: "data ?r = Some (row_b # [])" by simp
  have c: "bookmarks (handleSubmit_resolve ?ob ?r ?s2) = [row_c] @ row_b # [row_a]"
    and i: "on_payload (INSERT row_b) (handleSubmit_resolve ?ob ?r ?s2)
           = handleSubmit_resolve ?ob ?r ?s2"
    using create_confirm [OF b f l t p n e d refl] by blast+
  from c have "bookmarks (handleSubmit_resolve ?ob ?r ?s2) = [row_c, row_b, row_a]"
    by simp
  with b f l t p n i show ?thesis by blast
qed

text \<open>
  Claim C1 against the code. The list starts empty; a create is submitted; the realtime
  echo of the stored row arrives before the answer of the store, finds no record with
  its id (the placeholder is keyed by the temporary id) and is put in front; then the
  answer replaces the placeholder by the same row. The list now holds two records with
  the id \<^verbatim>\<open>id-1\<close>.
\<close>

theorem echo_before_response_duplicates:
  "handleSubmit_begin True ''temp-1'' ''2024-01-01T00:00:00.000Z'' ''u1''
       (form [] ''https://a.example'' ''A'') (form [] ''https://a.example'' ''A'')
     = ((form [mk ''temp-1'' ''https://a.example'' ''A'' ''2024-01-01T00:00:00.000Z''] [] [])
          \<lparr>isAdding := True\<rparr>,
        Some (mk ''temp-1'' ''https://a.example'' ''A'' ''2024-01-01T00:00:00.000Z'')) \<and>
   bookmarks
     (handleSubmit_resolve (mk ''temp-1'' ''https://a.example'' ''A'' ''2024-01-01T00:00:00.000Z'')
        \<lparr>data = Some [row_a], insertError = None\<rparr>
        (on_payload (INSERT row_a)
           ((form [mk ''temp-1'' ''https://a.example'' ''A'' ''2024-01-01T00:00:00.000Z''] [] [])
              \<lparr>isAdding := True\<rparr>)))
     = [row_a, row_a] \<and>
   \<not> distinct (map bid [row_a, row_a])"
  by (simp add: handleSubmit_begin_def handleSubmit_resolve_def Let_def insertAtFront_def
      on_insert_def replaceById_def trim_def isWhiteSpace_def mk_def row_a_def form_def)

section \<open>Order of the list\<close>

text \<open>
  Claim C6, as stated, fails: no insertion path sorts. Three records with
  \<^verbatim>\<open>created_at\<close> on 1, 2 and 3 January 2024, delivered by the listener newest first
  into an empty list, end up oldest first.
\<close>

theorem insertion_order_counterexample:
  "created_at row_a < created_at row_b \<and> created_at row_b < created_at row_c \<and>
   bookmarks (fold on_payload [INSERT row_c, INSERT row_b, INSERT row_a] (form [] [] []))
     = [row_a, row_b, row_c] \<and>
   \<not> sorted_desc [row_a, row_b, row_c]"
  by (simp add: on_insert_def insertAtFront_def sorted_desc_def less_char_def
      less_eq_char_def mk_def row_a_def row_b_def row_c_def form_def)

text \<open>
  Claim C6, amended. Records with pairwise different ids, none of them in the list,
  inserted through the listener or through the front insertion of the submitter,
  appear in reverse order of insertion in front of the old list. Inserted into an empty
  list, the snapshot is sorted by \<^verbatim>\<open>created_at\<close> descending exactly when the records
  were inserted in ascending order of \<^verbatim>\<open>created_at\<close>.
\<close>

theorem snapshot_reverse_insertion_order:
  assumes "distinct (map bid rs)" and "bid ` set rs \<inter> bid ` set current = {}"
  shows "fold on_insert rs current = rev rs @ current \<and>
         fold insertAtFront rs current = rev rs @ current \<and>
         (sorted_desc (fold on_insert rs []) \<longleftrightarrow> sorted (map created_at rs))"
proof -
  have "fold on_insert rs [] = rev rs"
    using fold_on_insert_fresh [OF assms(1), of "[]"] by simp
  then show ?thesis
    using fold_on_insert_fresh [OF assms] by (simp add: fold_insertAtFront sorted_desc_rev)
qed

theorem snapshot_reverse_insertion_order_witness:
  "distinct (map bid [row_b, row_c]) \<and> bid ` set [row_b, row_c] \<inter> bid ` set [row_a] = {} \<and>
   fold on_insert [row_b, row_c] [row_a] = [row_c, row_b, row_a] \<and>
   sorted (map created_at [row_b, row_c]) \<and>
   sorted_desc (fold on_insert [row_b, row_c] [])"
proof -
  have d: "distinct (map bid [row_b, row_c])"
    by (simp add: mk_def row_a_def row_b_def row_c_def)
  have f: "bid ` set [row_b, row_c] \<inter> bid ` set [row_a] = {}"
    by (simp add: mk_def row_a_def row_b_def row_c_def)
  have a: "sorted (map created_at [row_b, row_c])"
    by (simp add: less_eq_char_def less_char_def mk_def row_a_def row_b_def row_c_def)
  from snapshot_reverse_insertion_order [OF d f] a
  have "fold on_insert [row_b, row_c] [row_a] = rev [row_b, row_c] @ [row_a]"
    and "sorted_desc (fold on_insert [row_b, row_c] [])"
    by blast+
  with d f a show ?thesis by simp
qed

end
